theory Spec2Isabelle
  imports Main "HOL-Library.Word"
begin

section \<open>Shared vocabulary\<close>

text \<open>
  Native handles are 64-bit values; \<open>VK_NULL_HANDLE\<close> is 0. \<open>VkResult\<close> and
  \<open>VkFormat\<close> are C enumerations with many members: they are kept as integers, with the
  constants the code names given their values of the Vulkan headers. The small enumerations
  the code builds descriptors from are datatypes.
\<close>

type_synonym handle = "64 word"
type_synonym u32 = "32 word"
type_synonym VkResult = int
type_synonym VkFormat = nat

definition VK_NULL_HANDLE :: handle where
  "VK_NULL_HANDLE = 0"

definition VK_SUCCESS :: VkResult where
  "VK_SUCCESS = 0"

definition VK_ERROR_OUT_OF_HOST_MEMORY :: VkResult where
  "VK_ERROR_OUT_OF_HOST_MEMORY = - 1"

definition VK_ERROR_OUT_OF_DEVICE_MEMORY :: VkResult where
  "VK_ERROR_OUT_OF_DEVICE_MEMORY = - 2"

definition VK_ERROR_DEVICE_LOST :: VkResult where
  "VK_ERROR_DEVICE_LOST = - 4"

definition VK_FORMAT_UNDEFINED :: VkFormat where
  "VK_FORMAT_UNDEFINED = 0"

definition VK_FORMAT_R8G8B8A8_UNORM :: VkFormat where
  "VK_FORMAT_R8G8B8A8_UNORM = 37"

definition VK_FORMAT_D24_UNORM_S8_UINT :: VkFormat where
  "VK_FORMAT_D24_UNORM_S8_UINT = 129"

datatype VkAttachmentLoadOp =
  VK_ATTACHMENT_LOAD_OP_LOAD | VK_ATTACHMENT_LOAD_OP_CLEAR | VK_ATTACHMENT_LOAD_OP_DONT_CARE

datatype VkAttachmentStoreOp =
  VK_ATTACHMENT_STORE_OP_STORE | VK_ATTACHMENT_STORE_OP_DONT_CARE

datatype VkImageLayout =
  VK_IMAGE_LAYOUT_UNDEFINED
  | VK_IMAGE_LAYOUT_GENERAL
  | VK_IMAGE_LAYOUT_COLOR_ATTACHMENT_OPTIMAL
  | VK_IMAGE_LAYOUT_DEPTH_STENCIL_ATTACHMENT_OPTIMAL

datatype VkSampleCountFlagBits = VK_SAMPLE_COUNT_1_BIT

datatype VkSubpassContents =
  VK_SUBPASS_CONTENTS_INLINE | VK_SUBPASS_CONTENTS_SECONDARY_COMMAND_BUFFERS

datatype VkPipelineBindPoint =
  VK_PIPELINE_BIND_POINT_GRAPHICS | VK_PIPELINE_BIND_POINT_COMPUTE

datatype VkStructureType =
  VK_STRUCTURE_TYPE_RENDER_PASS_CREATE_INFO
  | VK_STRUCTURE_TYPE_RENDER_PASS_BEGIN_INFO
  | VK_STRUCTURE_TYPE_SHADER_MODULE_CREATE_INFO

text \<open>
  What can stop a call before it returns: a failed \<open>assert\<close> (where assertions are
  compiled in), a read or write outside the storage a pointer gives, and an array
  allocation of negative size.
\<close>

datatype error = AssertionFailed | OutOfBounds | BadArrayNewLength

record vkContext_t =
  vkDevice :: handle

section \<open>Descriptors of the native interface\<close>

record VkAttachmentDescription =
  att_flags :: u32
  format :: VkFormat
  samples :: VkSampleCountFlagBits
  loadOp :: VkAttachmentLoadOp
  storeOp :: VkAttachmentStoreOp
  stencilLoadOp :: VkAttachmentLoadOp
  stencilStoreOp :: VkAttachmentStoreOp
  initialLayout :: VkImageLayout
  finalLayout :: VkImageLayout

record VkAttachmentReference =
  attachment :: u32
  layout :: VkImageLayout

text \<open>A pointer member is an option (\<open>None\<close> for \<open>nullptr\<close>) or, with its count, a list.\<close>

record VkSubpassDescription =
  pipelineBindPoint :: VkPipelineBindPoint
  sub_flags :: u32
  colorAttachmentCount :: u32
  pColorAttachments :: "VkAttachmentReference option"
  pDepthStencilAttachment :: "VkAttachmentReference option"
  pResolveAttachments :: "VkAttachmentReference option"
  inputAttachmentCount :: u32
  pInputAttachments :: "VkAttachmentReference option"
  preserveAttachmentCount :: u32
  pPreserveAttachments :: "u32 option"

record VkRenderPassCreateInfo =
  rp_sType :: VkStructureType
  rp_flags :: u32
  attachmentCount :: u32
  pAttachments :: "VkAttachmentDescription list"
  subpassCount :: u32
  pSubpasses :: "VkSubpassDescription list"
  dependencyCount :: u32

record VkRect2D =
  offset_x :: int
  offset_y :: int
  extent_width :: u32
  extent_height :: u32

text \<open>
  A clear value is a union; \<open>Begin\<close> fills slot 0 as a colour and slot 1 as depth and
  stencil. The floats are only copied, so they are carried as their 32-bit patterns.
\<close>

datatype VkClearValue =
  ClearColor u32 u32 u32 u32
  | ClearDepthStencil u32 u32

record VkRenderPassBeginInfo =
  bi_sType :: VkStructureType
  framebuffer :: handle
  renderPass :: handle
  renderArea :: VkRect2D
  clearValueCount :: u32
  pClearValues :: "VkClearValue list"

record VkShaderModuleCreateInfo =
  sm_sType :: VkStructureType
  sm_flags :: u32
  codeSize :: nat
  pCode :: "u32 list"

text \<open>The calls into the native layer, in the order a function issues them.\<close>

datatype native_call =
  vkDestroyRenderPass handle handle
  | vkCreateRenderPass handle VkRenderPassCreateInfo
  | vkCmdBeginRenderPass handle VkRenderPassBeginInfo VkSubpassContents
  | vkCmdEndRenderPass handle
  | vkDestroyShaderModule handle handle
  | vkCreateShaderModule handle VkShaderModuleCreateInfo

section \<open>RenderPass (renderPass.cpp)\<close>

text \<open>
  Modelled from the spec: the declaration of the class (\<open>renderPass.h\<close>) is not among
  the sources. The fields are those the constructor initialises, with the types the data
  model of the specification gives them: a context that is referenced, two enumerations
  fixed at construction, a native handle that is null when not created, and seven booleans.
\<close>

record RenderPass =
  mVkContext :: vkContext_t
  mVkSubpassContents :: VkSubpassContents
  mVkPipelineBindPoint :: VkPipelineBindPoint
  mVkRenderPass :: handle
  mColorClearEnabled :: bool
  mDepthClearEnabled :: bool
  mStencilClearEnabled :: bool
  mColorWriteEnabled :: bool
  mDepthWriteEnabled :: bool
  mStencilWriteEnabled :: bool
  mStarted :: bool

definition RenderPass_ctor :: "vkContext_t \<Rightarrow> RenderPass" where
  "RenderPass_ctor vkContext =
     \<lparr> mVkContext = vkContext,
       mVkSubpassContents = VK_SUBPASS_CONTENTS_SECONDARY_COMMAND_BUFFERS,
       mVkPipelineBindPoint = VK_PIPELINE_BIND_POINT_GRAPHICS,
       mVkRenderPass = VK_NULL_HANDLE,
       mColorClearEnabled = False, mDepthClearEnabled = False, mStencilClearEnabled = False,
       mColorWriteEnabled = True, mDepthWriteEnabled = True, mStencilWriteEnabled = False,
       mStarted = False \<rparr>"

text \<open>Every operation returns the object as it leaves it and the native calls it made.\<close>

definition Release :: "RenderPass \<Rightarrow> RenderPass \<times> native_call list" where
  "Release s =
     (if mVkRenderPass s \<noteq> VK_NULL_HANDLE
      then (s\<lparr>mVkRenderPass := VK_NULL_HANDLE\<rparr>,
            [vkDestroyRenderPass (vkDevice (mVkContext s)) (mVkRenderPass s)])
      else (s, []))"

definition attachmentColor :: "RenderPass \<Rightarrow> VkFormat \<Rightarrow> VkAttachmentDescription" where
  "attachmentColor s colorFormat =
     \<lparr> att_flags = 0,
       format = colorFormat,
       samples = VK_SAMPLE_COUNT_1_BIT,
       loadOp = (if mColorClearEnabled s then VK_ATTACHMENT_LOAD_OP_CLEAR
                 else VK_ATTACHMENT_LOAD_OP_DONT_CARE),
       storeOp = (if mColorWriteEnabled s then VK_ATTACHMENT_STORE_OP_STORE
                  else VK_ATTACHMENT_STORE_OP_DONT_CARE),
       stencilLoadOp = VK_ATTACHMENT_LOAD_OP_DONT_CARE,
       stencilStoreOp = VK_ATTACHMENT_STORE_OP_DONT_CARE,
       initialLayout = VK_IMAGE_LAYOUT_UNDEFINED,
       finalLayout = VK_IMAGE_LAYOUT_COLOR_ATTACHMENT_OPTIMAL \<rparr>"

definition attachmentDepthStencil :: "RenderPass \<Rightarrow> VkFormat \<Rightarrow> VkAttachmentDescription" where
  "attachmentDepthStencil s depthstencilFormat =
     \<lparr> att_flags = 0,
       format = depthstencilFormat,
       samples = VK_SAMPLE_COUNT_1_BIT,
       loadOp = (if mDepthClearEnabled s then VK_ATTACHMENT_LOAD_OP_CLEAR
                 else VK_ATTACHMENT_LOAD_OP_DONT_CARE),
       storeOp = (if mDepthWriteEnabled s then VK_ATTACHMENT_STORE_OP_STORE
                  else VK_ATTACHMENT_STORE_OP_DONT_CARE),
       stencilLoadOp = (if mStencilClearEnabled s then VK_ATTACHMENT_LOAD_OP_CLEAR
                        else VK_ATTACHMENT_LOAD_OP_DONT_CARE),
       stencilStoreOp = (if mStencilWriteEnabled s then VK_ATTACHMENT_STORE_OP_STORE
                         else VK_ATTACHMENT_STORE_OP_DONT_CARE),
       initialLayout = VK_IMAGE_LAYOUT_UNDEFINED,
       finalLayout = VK_IMAGE_LAYOUT_DEPTH_STENCIL_ATTACHMENT_OPTIMAL \<rparr>"

text \<open>
  Lines 71 to 136 of \<open>Create\<close>: the attachment vector grows by \<open>push_back\<close>, each
  reference takes \<open>attachments.size() - 1\<close> right after its own push, and the two locals
  \<open>color\<close> and \<open>depthstencil\<close> are handed to the subpass only where their format is defined.
\<close>

definition Create_info :: "RenderPass \<Rightarrow> VkFormat \<Rightarrow> VkFormat \<Rightarrow> VkRenderPassCreateInfo" where
  "Create_info s colorFormat depthstencilFormat =
     (let attachments0 = [];
          attachments1 = (if colorFormat \<noteq> VK_FORMAT_UNDEFINED
                          then attachments0 @ [attachmentColor s colorFormat]
                          else attachments0);
          color = \<lparr> attachment = of_nat (length attachments1 - 1),
                    layout = VK_IMAGE_LAYOUT_COLOR_ATTACHMENT_OPTIMAL \<rparr>;
          attachments2 = (if depthstencilFormat \<noteq> VK_FORMAT_UNDEFINED
                          then attachments1 @ [attachmentDepthStencil s depthstencilFormat]
                          else attachments1);
          depthstencil = \<lparr> attachment = of_nat (length attachments2 - 1),
                           layout = VK_IMAGE_LAYOUT_DEPTH_STENCIL_ATTACHMENT_OPTIMAL \<rparr>;
          subpass =
            \<lparr> pipelineBindPoint = mVkPipelineBindPoint s,
              sub_flags = 0,
              colorAttachmentCount = (if colorFormat \<noteq> VK_FORMAT_UNDEFINED then 1 else 0),
              pColorAttachments =
                (if colorFormat \<noteq> VK_FORMAT_UNDEFINED then Some color else None),
              pDepthStencilAttachment =
                (if depthstencilFormat \<noteq> VK_FORMAT_UNDEFINED then Some depthstencil else None),
              pResolveAttachments = None,
              inputAttachmentCount = 0,
              pInputAttachments = None,
              preserveAttachmentCount = 0,
              pPreserveAttachments = None \<rparr>
      in \<lparr> rp_sType = VK_STRUCTURE_TYPE_RENDER_PASS_CREATE_INFO,
           rp_flags = 0,
           attachmentCount = of_nat (length attachments2),
           pAttachments = attachments2,
           subpassCount = 1,
           pSubpasses = [subpass],
           dependencyCount = 0 \<rparr>)"

text \<open>
  \<open>Create\<close>. The native call answers with a result code and with the handle it leaves
  in \<open>mVkRenderPass\<close>: both are the argument \<open>answer\<close>. \<open>ndebug\<close> says whether the
  build defines \<open>NDEBUG\<close>, which compiles \<open>assert\<close> away; where it does not, a non-zero
  result code stops the program at line 139.
\<close>

definition Create ::
  "bool \<Rightarrow> VkResult \<times> handle \<Rightarrow> VkFormat \<Rightarrow> VkFormat \<Rightarrow> RenderPass
   \<Rightarrow> (error + bool) \<times> RenderPass \<times> native_call list" where
  "Create ndebug answer colorFormat depthstencilFormat s0 =
     (let (s1, released) = Release s0;
          info = Create_info s1 colorFormat depthstencilFormat;
          err = fst answer;
          s2 = s1\<lparr>mVkRenderPass := snd answer\<rparr>;
          calls = released @ [vkCreateRenderPass (vkDevice (mVkContext s1)) info]
      in if \<not> ndebug \<and> err \<noteq> 0 then (Inl AssertionFailed, s2, calls)
         else (Inr (err \<noteq> VK_ERROR_OUT_OF_HOST_MEMORY \<and> err \<noteq> VK_ERROR_OUT_OF_DEVICE_MEMORY),
               s2, calls))"

definition Begin ::
  "handle \<Rightarrow> handle \<Rightarrow> VkRect2D \<Rightarrow> u32 \<times> u32 \<times> u32 \<times> u32 \<Rightarrow> u32 \<Rightarrow> u32 \<Rightarrow> RenderPass
   \<Rightarrow> RenderPass \<times> native_call list" where
  "Begin activeCmdBuffer fb rect clearColorValue clearDepthValue clearStencilValue s =
     (let (c0, c1, c2, c3) = clearColorValue;
          clearValues = [ClearColor c0 c1 c2 c3,
                         ClearDepthStencil clearDepthValue clearStencilValue];
          info = \<lparr> bi_sType = VK_STRUCTURE_TYPE_RENDER_PASS_BEGIN_INFO,
                   framebuffer = fb,
                   renderPass = mVkRenderPass s,
                   renderArea = rect,
                   clearValueCount = 2,
                   pClearValues = clearValues \<rparr>
      in (s\<lparr>mStarted := True\<rparr>,
          [vkCmdBeginRenderPass activeCmdBuffer info (mVkSubpassContents s)]))"

definition End :: "handle \<Rightarrow> RenderPass \<Rightarrow> RenderPass \<times> native_call list" where
  "End activeCmdBuffer s =
     (if mStarted s
      then (s\<lparr>mStarted := False\<rparr>, [vkCmdEndRenderPass activeCmdBuffer])
      else (s, []))"

text \<open>
  The descriptors a function handed to the native creation of a render pass, read from
  the calls it made; \<open>Create_built\<close> is what one call of \<open>Create\<close> hands over.
\<close>

fun render_pass_infos :: "native_call list \<Rightarrow> VkRenderPassCreateInfo list" where
  "render_pass_infos [] = []"
| "render_pass_infos (vkCreateRenderPass dev info # calls) = info # render_pass_infos calls"
| "render_pass_infos (_ # calls) = render_pass_infos calls"

definition Create_built ::
  "bool \<Rightarrow> VkResult \<times> handle \<Rightarrow> VkFormat \<Rightarrow> VkFormat \<Rightarrow> RenderPass
   \<Rightarrow> VkRenderPassCreateInfo list" where
  "Create_built ndebug answer colorFormat depthstencilFormat s =
     render_pass_infos (snd (snd (Create ndebug answer colorFormat depthstencilFormat s)))"

text \<open>
  A client drives a render pass by a sequence of calls. \<open>exec\<close> is one call, \<open>run\<close> a
  sequence from a given object; a failed assertion ends the run.
\<close>

datatype rp_op =
  OpCreate "VkResult \<times> handle" VkFormat VkFormat
  | OpBegin handle handle VkRect2D "u32 \<times> u32 \<times> u32 \<times> u32" u32 u32
  | OpEnd handle
  | OpRelease

fun exec :: "bool \<Rightarrow> rp_op \<Rightarrow> RenderPass \<Rightarrow> error + RenderPass" where
  "exec ndebug (OpCreate answer colorFormat depthstencilFormat) s =
     (case Create ndebug answer colorFormat depthstencilFormat s of
        (Inl e, _, _) \<Rightarrow> Inl e
      | (Inr _, s', _) \<Rightarrow> Inr s')"
| "exec ndebug (OpBegin cmd fb rect col depth stencil) s =
     Inr (fst (Begin cmd fb rect col depth stencil s))"
| "exec ndebug (OpEnd cmd) s = Inr (fst (End cmd s))"
| "exec ndebug OpRelease s = Inr (fst (Release s))"

fun run :: "bool \<Rightarrow> rp_op list \<Rightarrow> RenderPass \<Rightarrow> error + RenderPass" where
  "run ndebug [] s = Inr s"
| "run ndebug (x # xs) s =
     (case exec ndebug x s of Inl e \<Rightarrow> Inl e | Inr s' \<Rightarrow> run ndebug xs s')"

text \<open>The invariant of the data model: started only while the handle is not null.\<close>

definition started_has_handle :: "RenderPass \<Rightarrow> bool" where
  "started_has_handle s = (if mStarted s then mVkRenderPass s \<noteq> VK_NULL_HANDLE else True)"

text \<open>
  The discipline of a client that keeps the invariant: \<open>Begin\<close> only on a created render
  pass, \<open>Create\<close> and \<open>Release\<close> only outside a Begin/End pair.
\<close>

fun allowed :: "rp_op \<Rightarrow> RenderPass \<Rightarrow> bool" where
  "allowed (OpCreate answer colorFormat depthstencilFormat) s = (\<not> mStarted s)"
| "allowed (OpBegin cmd fb rect col depth stencil) s = (mVkRenderPass s \<noteq> VK_NULL_HANDLE)"
| "allowed (OpEnd cmd) s = True"
| "allowed OpRelease s = (\<not> mStarted s)"

fun disciplined :: "bool \<Rightarrow> rp_op list \<Rightarrow> RenderPass \<Rightarrow> bool" where
  "disciplined ndebug [] s = True"
| "disciplined ndebug (x # xs) s =
     (allowed x s \<and>
      (case exec ndebug x s of Inl e \<Rightarrow> True | Inr s' \<Rightarrow> disciplined ndebug xs s'))"

section \<open>Shader (shader.cpp)\<close>

text \<open>
  Modelled from the spec: the declaration of the class and of its two enumerations
  (\<open>shader.h\<close>) is not among the sources. The fields are those the constructor
  initialises, and \<open>mSpv\<close>, the binary words \<open>CreateVkShaderModule\<close> reads (an owned
  sequence of 32-bit words in the specification); the stage is one of VERTEX, FRAGMENT and
  INVALID; the counter \<open>mSourceLength\<close> has the type of the locals it is summed from and
  compared with (\<open>uint32_t\<close>). The compiler is referenced, not owned: \<open>None\<close> is the
  null pointer the constructor leaves. \<open>GLsizei\<close> and \<open>GLint\<close> are 32-bit and read as
  signed (\<open>sint\<close>). A character is a byte, a string a list of them.
\<close>

datatype shader_type_t = SHADER_TYPE_INVALID | SHADER_TYPE_VERTEX | SHADER_TYPE_FRAGMENT

datatype glsl_version_t = ESSL_VERSION_100 | ESSL_VERSION_300

type_synonym GLsizei = "32 word"
type_synonym GLint = "32 word"

record Shader =
  mVkContext_sh :: vkContext_t
  mVkShaderModule :: handle
  mShaderCompiler :: "nat option"
  mSource :: "string option"
  mSourceLength :: u32
  mShaderType :: shader_type_t
  mShaderVersion :: glsl_version_t
  mCompiled :: bool
  mSpv :: "u32 list"

definition Shader_ctor :: "vkContext_t \<Rightarrow> Shader" where
  "Shader_ctor vkContext =
     \<lparr> mVkContext_sh = vkContext, mVkShaderModule = VK_NULL_HANDLE, mShaderCompiler = None,
       mSource = None, mSourceLength = 0, mShaderType = SHADER_TYPE_INVALID,
       mShaderVersion = ESSL_VERSION_100, mCompiled = False, mSpv = [] \<rparr>"

definition FreeSources :: "Shader \<Rightarrow> Shader" where
  "FreeSources s =
     (if mSource s \<noteq> None then s\<lparr>mSource := None, mSourceLength := 0\<rparr> else s)"

definition NUL :: char where
  "NUL = CHR 0x00"

text \<open>
  A pointer to characters is modelled by the bytes its storage holds from the pointer on.
  \<open>strlen\<close> counts up to the first terminator and leaves the storage where there is none;
  \<open>memcpy dst off src n\<close> copies \<open>n\<close> bytes of \<open>src\<close> to \<open>dst + off\<close>, inside both.
  Fresh storage from \<open>new char[n]\<close> holds arbitrary bytes, given by \<open>fresh\<close>.
\<close>

definition strlen :: "string \<Rightarrow> error + nat" where
  "strlen p =
     (if NUL \<in> set p then Inr (length (takeWhile (\<lambda>c. c \<noteq> NUL) p)) else Inl OutOfBounds)"

definition memcpy :: "string \<Rightarrow> nat \<Rightarrow> string \<Rightarrow> nat \<Rightarrow> error + string" where
  "memcpy dst off src n =
     (if n \<le> length src \<and> off + n \<le> length dst
      then Inr (take off dst @ take n src @ drop (off + n) dst)
      else Inl OutOfBounds)"

definition new_chars :: "(nat \<Rightarrow> char) \<Rightarrow> nat \<Rightarrow> string" where
  "new_chars fresh n = map fresh [0..<n]"

text \<open>The body of the first loop (lines 85 to 95): the length of fragment \<open>i\<close>.\<close>

definition fragment_length :: "string list \<Rightarrow> GLint list option \<Rightarrow> nat \<Rightarrow> error + u32" where
  "fragment_length source length' i =
     (if length source \<le> i then Inl OutOfBounds
      else case length' of
        None \<Rightarrow>
          (case strlen (source ! i) of Inl e \<Rightarrow> Inl e | Inr n \<Rightarrow> Inr (of_nat n))
      | Some ls \<Rightarrow>
          if length ls \<le> i then Inl OutOfBounds
          else if sint (ls ! i) < 0
          then (case strlen (source ! i) of Inl e \<Rightarrow> Inl e | Inr n \<Rightarrow> Inr (of_nat n))
          else Inr (ls ! i))"

text \<open>
  The first loop (lines 83 to 98). \<open>sourceLengths\<close> is a fresh array: a store in which
  no cell is written yet.
\<close>

function count_loop ::
  "string list \<Rightarrow> GLint list option \<Rightarrow> nat \<Rightarrow> nat \<Rightarrow> (nat \<rightharpoonup> u32) \<Rightarrow> u32
   \<Rightarrow> error + (nat \<rightharpoonup> u32) \<times> u32" where
  "count_loop source length' count i sourceLengths sourceLength =
     (if i < count then
        (case fragment_length source length' i of
           Inl e \<Rightarrow> Inl e
         | Inr n \<Rightarrow>
             count_loop source length' count (Suc i) (sourceLengths(i \<mapsto> n)) (sourceLength + n))
      else Inr (sourceLengths, sourceLength))"
  by pat_completeness auto
termination
  by (relation "measure (\<lambda>(source, length', count, i, sourceLengths, sourceLength). count - i)") auto

text \<open>
  The second loop (lines 111 to 116). It reads the cells of \<open>sourceLengths\<close> the first
  loop wrote; a cell never written would be a read outside what the array holds.
\<close>

function concat_loop ::
  "string list \<Rightarrow> (nat \<rightharpoonup> u32) \<Rightarrow> nat \<Rightarrow> nat \<Rightarrow> string \<Rightarrow> u32 \<Rightarrow> error + string \<times> u32" where
  "concat_loop source sourceLengths count i buf currentLength =
     (if i < count then
        (case sourceLengths i of
           None \<Rightarrow> Inl OutOfBounds
         | Some n \<Rightarrow>
             if n \<noteq> 0 then
               (if length source \<le> i then Inl OutOfBounds
                else case memcpy buf (unat currentLength) (source ! i) (unat n) of
                  Inl e \<Rightarrow> Inl e
                | Inr buf' \<Rightarrow>
                    concat_loop source sourceLengths count (Suc i) buf' (currentLength + n))
             else concat_loop source sourceLengths count (Suc i) buf currentLength)
      else Inr (buf, currentLength))"
  by pat_completeness auto
termination
  by (relation "measure (\<lambda>(source, sourceLengths, count, i, buf, currentLength). count - i)") auto

text \<open>
  \<open>SetShaderSource\<close>. A null \<open>source\<close> is \<open>None\<close>, a null \<open>length\<close> is \<open>None\<close>. The two
  diagnostic switches of lines 121 to 127 do not touch the object and are left out.
\<close>

definition SetShaderSource ::
  "bool \<Rightarrow> (nat \<Rightarrow> char) \<Rightarrow> GLsizei \<Rightarrow> string list option \<Rightarrow> GLint list option \<Rightarrow> Shader
   \<Rightarrow> error + Shader" where
  "SetShaderSource ndebug fresh count source length' s0 =
     (let s1 = (FreeSources s0)\<lparr>mCompiled := False\<rparr> in
      case source of
        None \<Rightarrow> Inr s1
      | Some src \<Rightarrow>
          if count = 0 then Inr s1
          else if sint count < 0 then Inl BadArrayNewLength
          else
            (case count_loop src length' (nat (sint count)) 0 Map.empty 0 of
               Inl e \<Rightarrow> Inl e
             | Inr (sourceLengths, sourceLength) \<Rightarrow>
                 let s2 = s1\<lparr>mSourceLength := sourceLength\<rparr> in
                 if sourceLength = 0 then Inr s2
                 else
                   (case concat_loop src sourceLengths (nat (sint count)) 0
                           (new_chars fresh (unat (sourceLength + 1))) 0 of
                      Inl e \<Rightarrow> Inl e
                    | Inr (buf, currentLength) \<Rightarrow>
                        if \<not> ndebug \<and> currentLength \<noteq> sourceLength then Inl AssertionFailed
                        else if length buf \<le> unat currentLength then Inl OutOfBounds
                        else Inr (s2\<lparr>mSource := Some (buf[unat currentLength := NUL])\<rparr>))))"

definition GetShaderSourceLength :: "Shader \<Rightarrow> int" where
  "GetShaderSourceLength s = (if mSourceLength s > 0 then sint (mSourceLength s + 1) else 0)"

definition GetShaderSource :: "(nat \<Rightarrow> char) \<Rightarrow> Shader \<Rightarrow> error + string option" where
  "GetShaderSource fresh s =
     (case mSource s of
        None \<Rightarrow> Inr None
      | Some m \<Rightarrow>
          let n = GetShaderSourceLength s in
          if n < 0 then Inl BadArrayNewLength
          else (case memcpy (new_chars fresh (nat n)) 0 m (nat n) of
                  Inl e \<Rightarrow> Inl e
                | Inr source \<Rightarrow> Inr (Some source)))"

definition DestroyVkShader :: "Shader \<Rightarrow> Shader \<times> native_call list" where
  "DestroyVkShader s =
     (if mVkShaderModule s \<noteq> VK_NULL_HANDLE
      then (s\<lparr>mVkShaderModule := VK_NULL_HANDLE\<rparr>,
            [vkDestroyShaderModule (vkDevice (mVkContext_sh s)) (mVkShaderModule s)])
      else (s, []))"

text \<open>
  \<open>CreateVkShaderModule\<close>. As in \<open>Create\<close>, \<open>answer\<close> is the result code of the native
  call and the handle it leaves in \<open>mVkShaderModule\<close>, and \<open>ndebug\<close> compiles the
  assertion of line 201 away.
\<close>

definition CreateVkShaderModule ::
  "bool \<Rightarrow> VkResult \<times> handle \<Rightarrow> Shader \<Rightarrow> (error + handle) \<times> Shader \<times> native_call list" where
  "CreateVkShaderModule ndebug answer s0 =
     (if \<not> ndebug \<and> \<not> (mShaderType s0 = SHADER_TYPE_VERTEX \<or> mShaderType s0 = SHADER_TYPE_FRAGMENT)
      then (Inl AssertionFailed, s0, [])
      else
        (let (s1, destroyed) = DestroyVkShader s0 in
         if length (mSpv s1) = 0 then (Inr VK_NULL_HANDLE, s1, destroyed)
         else
           (let moduleCreateInfo =
                  \<lparr> sm_sType = VK_STRUCTURE_TYPE_SHADER_MODULE_CREATE_INFO,
                    sm_flags = 0,
                    codeSize = length (mSpv s1) * 4,
                    pCode = mSpv s1 \<rparr>;
                s2 = s1\<lparr>mVkShaderModule := snd answer\<rparr>;
                calls = destroyed @ [vkCreateShaderModule (vkDevice (mVkContext_sh s1)) moduleCreateInfo]
            in if fst answer \<noteq> 0 then (Inr VK_NULL_HANDLE, s2, calls)
               else (Inr (mVkShaderModule s2), s2, calls))))"

text \<open>
  Whether a trace of native calls creates a shader module.
\<close>

fun is_module_creation :: "native_call \<Rightarrow> bool" where
  "is_module_creation (vkCreateShaderModule dev info) = True"
| "is_module_creation _ = False"

subsection \<open>The source text as the specification words it\<close>

text \<open>
  For each of the \<open>count\<close> fragments: its text is its first \<open>lengths[i]\<close> bytes where
  lengths are provided and \<open>lengths[i] \<ge> 0\<close>, and the bytes before its terminator
  otherwise. The source is the texts concatenated in input order. A fragment is readable
  when it is there and its text lies inside its storage.
\<close>

definition spec_fragment :: "string list \<Rightarrow> GLint list option \<Rightarrow> nat \<Rightarrow> string" where
  "spec_fragment source length' i =
     (case length' of
        None \<Rightarrow> takeWhile (\<lambda>c. c \<noteq> NUL) (source ! i)
      | Some ls \<Rightarrow>
          if sint (ls ! i) < 0 then takeWhile (\<lambda>c. c \<noteq> NUL) (source ! i)
          else take (nat (sint (ls ! i))) (source ! i))"

definition fragment_readable :: "string list \<Rightarrow> GLint list option \<Rightarrow> nat \<Rightarrow> bool" where
  "fragment_readable source length' i =
     (i < length source \<and>
      (case length' of
         None \<Rightarrow> NUL \<in> set (source ! i)
       | Some ls \<Rightarrow>
           i < length ls \<and>
           (if sint (ls ! i) < 0 then NUL \<in> set (source ! i)
            else nat (sint (ls ! i)) \<le> length (source ! i))))"

definition spec_source :: "nat \<Rightarrow> string list \<Rightarrow> GLint list option \<Rightarrow> string" where
  "spec_source count source length' = concat (map (spec_fragment source length') [0..<count])"

declare count_loop.simps [simp del]
declare concat_loop.simps [simp del]

section \<open>Properties of RenderPass\<close>

subsection \<open>What one call of Create does\<close>

lemma fst_Create:
  "fst (Create ndebug answer colorFormat depthstencilFormat s) =
     (if \<not> ndebug \<and> fst answer \<noteq> 0 then Inl AssertionFailed
      else Inr (fst answer \<noteq> VK_ERROR_OUT_OF_HOST_MEMORY \<and>
                fst answer \<noteq> VK_ERROR_OUT_OF_DEVICE_MEMORY))"
  by (simp add: Create_def Release_def Let_def split: prod.splits)

lemma Create_info_handle:
  "Create_info (s\<lparr>mVkRenderPass := h\<rparr>) colorFormat depthstencilFormat =
     Create_info s colorFormat depthstencilFormat"
  by (simp add: Create_info_def attachmentColor_def attachmentDepthStencil_def)

lemma Create_built_eq:
  "Create_built ndebug answer colorFormat depthstencilFormat s =
     [Create_info s colorFormat depthstencilFormat]"
  by (simp add: Create_built_def Create_def Release_def Let_def Create_info_handle)

lemma pAttachments_Create_info:
  "pAttachments (Create_info s colorFormat depthstencilFormat) =
     (if colorFormat \<noteq> VK_FORMAT_UNDEFINED then [attachmentColor s colorFormat] else []) @
     (if depthstencilFormat \<noteq> VK_FORMAT_UNDEFINED
      then [attachmentDepthStencil s depthstencilFormat] else [])"
  by (simp add: Create_info_def Let_def)

lemma counts_Create_info:
  "subpassCount (Create_info s colorFormat depthstencilFormat) = 1"
  "attachmentCount (Create_info s colorFormat depthstencilFormat) =
     of_nat (length (pAttachments (Create_info s colorFormat depthstencilFormat)))"
  by (simp_all add: Create_info_def Let_def)

text \<open>
  C4, as the code has it. Where assertions are compiled away (\<open>NDEBUG\<close>), \<open>Create\<close>
  returns false exactly when the native call reports a host or device out-of-memory
  condition, and true for every other result code. Where assertions are compiled in,
  \<open>Create\<close> returns true when the native call succeeds and stops at the assertion for
  every other result code, the out-of-memory ones included.
\<close>

theorem Create_result_by_build:
  "(fst (Create True (err, h) colorFormat depthstencilFormat s) = Inr False
      \<longleftrightarrow> err = VK_ERROR_OUT_OF_HOST_MEMORY \<or> err = VK_ERROR_OUT_OF_DEVICE_MEMORY) \<and>
   (fst (Create True (err, h) colorFormat depthstencilFormat s) = Inr True
      \<longleftrightarrow> err \<noteq> VK_ERROR_OUT_OF_HOST_MEMORY \<and> err \<noteq> VK_ERROR_OUT_OF_DEVICE_MEMORY) \<and>
   fst (Create False (err, h) colorFormat depthstencilFormat s) =
     (if err = VK_SUCCESS then Inr True else Inl AssertionFailed)"
  by (auto simp add: fst_Create VK_SUCCESS_def VK_ERROR_OUT_OF_HOST_MEMORY_def
      VK_ERROR_OUT_OF_DEVICE_MEMORY_def)

theorem Create_result_by_build_witness:
  "fst (Create True (VK_ERROR_OUT_OF_DEVICE_MEMORY, 0) VK_FORMAT_R8G8B8A8_UNORM
          VK_FORMAT_UNDEFINED (RenderPass_ctor \<lparr>vkDevice = 1\<rparr>)) = Inr False \<and>
   fst (Create True (VK_ERROR_DEVICE_LOST, 0) VK_FORMAT_R8G8B8A8_UNORM
          VK_FORMAT_UNDEFINED (RenderPass_ctor \<lparr>vkDevice = 1\<rparr>)) = Inr True \<and>
   fst (Create False (VK_ERROR_DEVICE_LOST, 0) VK_FORMAT_R8G8B8A8_UNORM
          VK_FORMAT_UNDEFINED (RenderPass_ctor \<lparr>vkDevice = 1\<rparr>)) = Inl AssertionFailed"
  using Create_result_by_build [of VK_ERROR_OUT_OF_DEVICE_MEMORY 0 VK_FORMAT_R8G8B8A8_UNORM
      VK_FORMAT_UNDEFINED "RenderPass_ctor \<lparr>vkDevice = 1\<rparr>"]
    Create_result_by_build [of VK_ERROR_DEVICE_LOST 0 VK_FORMAT_R8G8B8A8_UNORM
      VK_FORMAT_UNDEFINED "RenderPass_ctor \<lparr>vkDevice = 1\<rparr>"]
  by (simp add: VK_SUCCESS_def VK_ERROR_OUT_OF_HOST_MEMORY_def
      VK_ERROR_OUT_OF_DEVICE_MEMORY_def VK_ERROR_DEVICE_LOST_def)

text \<open>
  With assertions compiled in, an out-of-memory result does not make \<open>Create\<close> return
  false, and another failure does not make it return true.
\<close>

theorem Create_returns_false_iff_oom_counterexample:
  "fst (Create False (VK_ERROR_OUT_OF_HOST_MEMORY, 0) VK_FORMAT_R8G8B8A8_UNORM
          VK_FORMAT_UNDEFINED (RenderPass_ctor \<lparr>vkDevice = 1\<rparr>)) \<noteq> Inr False \<and>
   fst (Create False (VK_ERROR_DEVICE_LOST, 0) VK_FORMAT_R8G8B8A8_UNORM
          VK_FORMAT_UNDEFINED (RenderPass_ctor \<lparr>vkDevice = 1\<rparr>)) \<noteq> Inr True"
  by (simp add: fst_Create VK_ERROR_OUT_OF_HOST_MEMORY_def VK_ERROR_DEVICE_LOST_def)

text \<open>
  C5. For every combination of the six flags and every pair of defined formats, the
  colour descriptor has load operation CLEAR if the colour clear flag is set and DONT_CARE
  if not, and store operation STORE if the colour write flag is set and DONT_CARE if not;
  the depth/stencil descriptor maps the depth flags to its load and store operations and the
  stencil flags to its stencil load and store operations in the same way, each channel from
  its own flags only.
\<close>

theorem Create_load_store_policy:
  assumes "colorFormat \<noteq> VK_FORMAT_UNDEFINED" and "depthstencilFormat \<noteq> VK_FORMAT_UNDEFINED"
  shows "map (\<lambda>info. map loadOp (pAttachments info))
           (Create_built ndebug answer colorFormat depthstencilFormat s) =
         [[if mColorClearEnabled s then VK_ATTACHMENT_LOAD_OP_CLEAR
           else VK_ATTACHMENT_LOAD_OP_DONT_CARE,
           if mDepthClearEnabled s then VK_ATTACHMENT_LOAD_OP_CLEAR
           else VK_ATTACHMENT_LOAD_OP_DONT_CARE]] \<and>
     map (\<lambda>info. map storeOp (pAttachments info))
           (Create_built ndebug answer colorFormat depthstencilFormat s) =
         [[if mColorWriteEnabled s then VK_ATTACHMENT_STORE_OP_STORE
           else VK_ATTACHMENT_STORE_OP_DONT_CARE,
           if mDepthWriteEnabled s then VK_ATTACHMENT_STORE_OP_STORE
           else VK_ATTACHMENT_STORE_OP_DONT_CARE]] \<and>
     map (\<lambda>info. map stencilLoadOp (pAttachments info))
           (Create_built ndebug answer colorFormat depthstencilFormat s) =
         [[VK_ATTACHMENT_LOAD_OP_DONT_CARE,
           if mStencilClearEnabled s then VK_ATTACHMENT_LOAD_OP_CLEAR
           else VK_ATTACHMENT_LOAD_OP_DONT_CARE]] \<and>
     map (\<lambda>info. map stencilStoreOp (pAttachments info))
           (Create_built ndebug answer colorFormat depthstencilFormat s) =
         [[VK_ATTACHMENT_STORE_OP_DONT_CARE,
           if mStencilWriteEnabled s then VK_ATTACHMENT_STORE_OP_STORE
           else VK_ATTACHMENT_STORE_OP_DONT_CARE]]"
  using assms
  by (simp add: Create_built_eq pAttachments_Create_info attachmentColor_def
      attachmentDepthStencil_def)

theorem Create_load_store_policy_witness:
  "VK_FORMAT_R8G8B8A8_UNORM \<noteq> VK_FORMAT_UNDEFINED \<and>
   VK_FORMAT_D24_UNORM_S8_UINT \<noteq> VK_FORMAT_UNDEFINED \<and>
   map (\<lambda>info. map loadOp (pAttachments info))
     (Create_built True (VK_SUCCESS, 7) VK_FORMAT_R8G8B8A8_UNORM VK_FORMAT_D24_UNORM_S8_UINT
        ((RenderPass_ctor \<lparr>vkDevice = 1\<rparr>)
           \<lparr>mColorClearEnabled := True, mDepthWriteEnabled := False,
            mStencilClearEnabled := True, mStencilWriteEnabled := True\<rparr>)) =
     [[VK_ATTACHMENT_LOAD_OP_CLEAR, VK_ATTACHMENT_LOAD_OP_DONT_CARE]] \<and>
   map (\<lambda>info. map storeOp (pAttachments info))
     (Create_built True (VK_SUCCESS, 7) VK_FORMAT_R8G8B8A8_UNORM VK_FORMAT_D24_UNORM_S8_UINT
        ((RenderPass_ctor \<lparr>vkDevice = 1\<rparr>)
           \<lparr>mColorClearEnabled := True, mDepthWriteEnabled := False,
            mStencilClearEnabled := True, mStencilWriteEnabled := True\<rparr>)) =
     [[VK_ATTACHMENT_STORE_OP_STORE, VK_ATTACHMENT_STORE_OP_DONT_CARE]] \<and>
   map (\<lambda>info. map stencilLoadOp (pAttachments info))
     (Create_built True (VK_SUCCESS, 7) VK_FORMAT_R8G8B8A8_UNORM VK_FORMAT_D24_UNORM_S8_UINT
        ((RenderPass_ctor \<lparr>vkDevice = 1\<rparr>)
           \<lparr>mColorClearEnabled := True, mDepthWriteEnabled := False,
            mStencilClearEnabled := True, mStencilWriteEnabled := True\<rparr>)) =
     [[VK_ATTACHMENT_LOAD_OP_DONT_CARE, VK_ATTACHMENT_LOAD_OP_CLEAR]] \<and>
   map (\<lambda>info. map stencilStoreOp (pAttachments info))
     (Create_built True (VK_SUCCESS, 7) VK_FORMAT_R8G8B8A8_UNORM VK_FORMAT_D24_UNORM_S8_UINT
        ((RenderPass_ctor \<lparr>vkDevice = 1\<rparr>)
           \<lparr>mColorClearEnabled := True, mDepthWriteEnabled := False,
            mStencilClearEnabled := True, mStencilWriteEnabled := True\<rparr>)) =
     [[VK_ATTACHMENT_STORE_OP_DONT_CARE, VK_ATTACHMENT_STORE_OP_STORE]]"
proof -
  have c: "VK_FORMAT_R8G8B8A8_UNORM \<noteq> VK_FORMAT_UNDEFINED"
    by (simp add: VK_FORMAT_R8G8B8A8_UNORM_def VK_FORMAT_UNDEFINED_def)
  have d: "VK_FORMAT_D24_UNORM_S8_UINT \<noteq> VK_FORMAT_UNDEFINED"
    by (simp add: VK_FORMAT_D24_UNORM_S8_UINT_def VK_FORMAT_UNDEFINED_def)
  show ?thesis
    using c d Create_load_store_policy [OF c d, of True "(VK_SUCCESS, 7)"
        "(RenderPass_ctor \<lparr>vkDevice = 1\<rparr>)
           \<lparr>mColorClearEnabled := True, mDepthWriteEnabled := False,
            mStencilClearEnabled := True, mStencilWriteEnabled := True\<rparr>"]
    by (simp add: RenderPass_ctor_def)
qed

text \<open>
  C6. \<open>Create\<close> declares exactly one subpass and no dependency. With only the colour
  format defined it builds one attachment, the colour one (of that format, ending in the
  colour layout), and the subpass declares one colour attachment, referenced at index 0,
  and no depth/stencil reference; with only the depth/stencil format defined it builds one
  attachment, the depth/stencil one, referenced at index 0, and the subpass declares no
  colour attachment; with both defined it builds two, colour at index 0 and depth/stencil
  at index 1, and the subpass declares one colour attachment and references both. The
  subpass has no input, resolve or preserve attachments.
\<close>

theorem Create_attachment_layout:
  "map subpassCount (Create_built ndebug answer colorFormat depthstencilFormat s) = [1] \<and>
   map (\<lambda>info. length (pSubpasses info))
     (Create_built ndebug answer colorFormat depthstencilFormat s) = [1] \<and>
   map dependencyCount (Create_built ndebug answer colorFormat depthstencilFormat s) = [0] \<and>
   (colorFormat \<noteq> VK_FORMAT_UNDEFINED \<and> depthstencilFormat = VK_FORMAT_UNDEFINED \<longrightarrow>
      map pAttachments (Create_built ndebug answer colorFormat depthstencilFormat s) =
        [[attachmentColor s colorFormat]] \<and>
      map (\<lambda>info. map (\<lambda>a. (format a, finalLayout a)) (pAttachments info))
        (Create_built ndebug answer colorFormat depthstencilFormat s) =
        [[(colorFormat, VK_IMAGE_LAYOUT_COLOR_ATTACHMENT_OPTIMAL)]] \<and>
      map attachmentCount (Create_built ndebug answer colorFormat depthstencilFormat s) = [1] \<and>
      map (\<lambda>info. map colorAttachmentCount (pSubpasses info))
        (Create_built ndebug answer colorFormat depthstencilFormat s) = [[1]] \<and>
      map pSubpasses (Create_built ndebug answer colorFormat depthstencilFormat s) =
        [[\<lparr>pipelineBindPoint = mVkPipelineBindPoint s, sub_flags = 0,
           colorAttachmentCount = 1,
           pColorAttachments = Some \<lparr>attachment = 0, layout = VK_IMAGE_LAYOUT_COLOR_ATTACHMENT_OPTIMAL\<rparr>,
           pDepthStencilAttachment = None,
           pResolveAttachments = None, inputAttachmentCount = 0, pInputAttachments = None,
           preserveAttachmentCount = 0, pPreserveAttachments = None\<rparr>]]) \<and>
   (colorFormat = VK_FORMAT_UNDEFINED \<and> depthstencilFormat \<noteq> VK_FORMAT_UNDEFINED \<longrightarrow>
      map pAttachments (Create_built ndebug answer colorFormat depthstencilFormat s) =
        [[attachmentDepthStencil s depthstencilFormat]] \<and>
      map (\<lambda>info. map (\<lambda>a. (format a, finalLayout a)) (pAttachments info))
        (Create_built ndebug answer colorFormat depthstencilFormat s) =
        [[(depthstencilFormat, VK_IMAGE_LAYOUT_DEPTH_STENCIL_ATTACHMENT_OPTIMAL)]] \<and>
      map attachmentCount (Create_built ndebug answer colorFormat depthstencilFormat s) = [1] \<and>
      map (\<lambda>info. map colorAttachmentCount (pSubpasses info))
        (Create_built ndebug answer colorFormat depthstencilFormat s) = [[0]] \<and>
      map pSubpasses (Create_built ndebug answer colorFormat depthstencilFormat s) =
        [[\<lparr>pipelineBindPoint = mVkPipelineBindPoint s, sub_flags = 0,
           colorAttachmentCount = 0,
           pColorAttachments = None,
           pDepthStencilAttachment = Some \<lparr>attachment = 0,
                   layout = VK_IMAGE_LAYOUT_DEPTH_STENCIL_ATTACHMENT_OPTIMAL\<rparr>,
           pResolveAttachments = None, inputAttachmentCount = 0, pInputAttachments = None,
           preserveAttachmentCount = 0, pPreserveAttachments = None\<rparr>]]) \<and>
   (colorFormat \<noteq> VK_FORMAT_UNDEFINED \<and> depthstencilFormat \<noteq> VK_FORMAT_UNDEFINED \<longrightarrow>
      map pAttachments (Create_built ndebug answer colorFormat depthstencilFormat s) =
        [[attachmentColor s colorFormat, attachmentDepthStencil s depthstencilFormat]] \<and>
      map (\<lambda>info. map (\<lambda>a. (format a, finalLayout a)) (pAttachments info))
        (Create_built ndebug answer colorFormat depthstencilFormat s) =
        [[(colorFormat, VK_IMAGE_LAYOUT_COLOR_ATTACHMENT_OPTIMAL),
          (depthstencilFormat, VK_IMAGE_LAYOUT_DEPTH_STENCIL_ATTACHMENT_OPTIMAL)]] \<and>
      map attachmentCount (Create_built ndebug answer colorFormat depthstencilFormat s) = [2] \<and>
      map (\<lambda>info. map colorAttachmentCount (pSubpasses info))
        (Create_built ndebug answer colorFormat depthstencilFormat s) = [[1]] \<and>
      map pSubpasses (Create_built ndebug answer colorFormat depthstencilFormat s) =
        [[\<lparr>pipelineBindPoint = mVkPipelineBindPoint s, sub_flags = 0,
           colorAttachmentCount = 1,
           pColorAttachments = Some \<lparr>attachment = 0, layout = VK_IMAGE_LAYOUT_COLOR_ATTACHMENT_OPTIMAL\<rparr>,
           pDepthStencilAttachment = Some \<lparr>attachment = 1,
                   layout = VK_IMAGE_LAYOUT_DEPTH_STENCIL_ATTACHMENT_OPTIMAL\<rparr>,
           pResolveAttachments = None, inputAttachmentCount = 0, pInputAttachments = None,
           preserveAttachmentCount = 0, pPreserveAttachments = None\<rparr>]])"
  by (simp add: Create_built_eq pAttachments_Create_info counts_Create_info
      attachmentColor_def attachmentDepthStencil_def)
    (simp add: Create_info_def Let_def)

theorem Create_attachment_layout_witness:
  "(VK_FORMAT_R8G8B8A8_UNORM \<noteq> VK_FORMAT_UNDEFINED \<and>
    map (\<lambda>info. (map (\<lambda>a. (format a, finalLayout a)) (pAttachments info),
                  attachmentCount info,
                  map (\<lambda>sub. (colorAttachmentCount sub, pColorAttachments sub,
                              pDepthStencilAttachment sub))
                    (pSubpasses info)))
      (Create_built True (VK_SUCCESS, 7) VK_FORMAT_R8G8B8A8_UNORM VK_FORMAT_UNDEFINED
         (RenderPass_ctor \<lparr>vkDevice = 1\<rparr>)) =
      [([(VK_FORMAT_R8G8B8A8_UNORM, VK_IMAGE_LAYOUT_COLOR_ATTACHMENT_OPTIMAL)], 1,
        [(1, Some \<lparr>attachment = 0, layout = VK_IMAGE_LAYOUT_COLOR_ATTACHMENT_OPTIMAL\<rparr>,
          None)])]) \<and>
   (VK_FORMAT_D24_UNORM_S8_UINT \<noteq> VK_FORMAT_UNDEFINED \<and>
    map (\<lambda>info. (map (\<lambda>a. (format a, finalLayout a)) (pAttachments info),
                  attachmentCount info,
                  map (\<lambda>sub. (colorAttachmentCount sub, pColorAttachments sub,
                              pDepthStencilAttachment sub))
                    (pSubpasses info)))
      (Create_built True (VK_SUCCESS, 7) VK_FORMAT_UNDEFINED VK_FORMAT_D24_UNORM_S8_UINT
         (RenderPass_ctor \<lparr>vkDevice = 1\<rparr>)) =
      [([(VK_FORMAT_D24_UNORM_S8_UINT, VK_IMAGE_LAYOUT_DEPTH_STENCIL_ATTACHMENT_OPTIMAL)], 1,
        [(0, None,
          Some \<lparr>attachment = 0,
                layout = VK_IMAGE_LAYOUT_DEPTH_STENCIL_ATTACHMENT_OPTIMAL\<rparr>)])]) \<and>
   map (\<lambda>info. (map (\<lambda>a. (format a, finalLayout a)) (pAttachments info),
                 attachmentCount info,
                 map (\<lambda>sub. (colorAttachmentCount sub, pColorAttachments sub,
                             pDepthStencilAttachment sub))
                   (pSubpasses info)))
     (Create_built True (VK_SUCCESS, 7) VK_FORMAT_R8G8B8A8_UNORM VK_FORMAT_D24_UNORM_S8_UINT
        (RenderPass_ctor \<lparr>vkDevice = 1\<rparr>)) =
     [([(VK_FORMAT_R8G8B8A8_UNORM, VK_IMAGE_LAYOUT_COLOR_ATTACHMENT_OPTIMAL),
        (VK_FORMAT_D24_UNORM_S8_UINT, VK_IMAGE_LAYOUT_DEPTH_STENCIL_ATTACHMENT_OPTIMAL)], 2,
       [(1, Some \<lparr>attachment = 0, layout = VK_IMAGE_LAYOUT_COLOR_ATTACHMENT_OPTIMAL\<rparr>,
         Some \<lparr>attachment = 1,
               layout = VK_IMAGE_LAYOUT_DEPTH_STENCIL_ATTACHMENT_OPTIMAL\<rparr>)])]"
proof -
  have c: "VK_FORMAT_R8G8B8A8_UNORM \<noteq> VK_FORMAT_UNDEFINED"
    by (simp add: VK_FORMAT_R8G8B8A8_UNORM_def VK_FORMAT_UNDEFINED_def)
  have d: "VK_FORMAT_D24_UNORM_S8_UINT \<noteq> VK_FORMAT_UNDEFINED"
    by (simp add: VK_FORMAT_D24_UNORM_S8_UINT_def VK_FORMAT_UNDEFINED_def)
  show ?thesis
    using c d
      Create_attachment_layout [of True "(VK_SUCCESS, 7)" VK_FORMAT_R8G8B8A8_UNORM
        VK_FORMAT_UNDEFINED "RenderPass_ctor \<lparr>vkDevice = 1\<rparr>"]
      Create_attachment_layout [of True "(VK_SUCCESS, 7)" VK_FORMAT_UNDEFINED
        VK_FORMAT_D24_UNORM_S8_UINT "RenderPass_ctor \<lparr>vkDevice = 1\<rparr>"]
      Create_attachment_layout [of True "(VK_SUCCESS, 7)" VK_FORMAT_R8G8B8A8_UNORM
        VK_FORMAT_D24_UNORM_S8_UINT "RenderPass_ctor \<lparr>vkDevice = 1\<rparr>"]
    by (simp add: Create_built_eq attachmentColor_def attachmentDepthStencil_def)
qed

text \<open>
  C9. Where \<open>started\<close> is false, \<open>End\<close> changes nothing and issues no command; where it
  is true, \<open>End\<close> issues the scope-exit command and sets \<open>started\<close> to false, changing
  nothing else.
\<close>

theorem End_effect:
  "(\<not> mStarted s \<longrightarrow> End activeCmdBuffer s = (s, [])) \<and>
   (mStarted s \<longrightarrow>
      End activeCmdBuffer s = (s\<lparr>mStarted := False\<rparr>, [vkCmdEndRenderPass activeCmdBuffer]))"
  by (simp add: End_def)

theorem End_effect_witness:
  "\<not> mStarted (RenderPass_ctor \<lparr>vkDevice = 1\<rparr>) \<and>
   End 3 (RenderPass_ctor \<lparr>vkDevice = 1\<rparr>) = (RenderPass_ctor \<lparr>vkDevice = 1\<rparr>, []) \<and>
   mStarted ((RenderPass_ctor \<lparr>vkDevice = 1\<rparr>)\<lparr>mVkRenderPass := 7, mStarted := True\<rparr>) \<and>
   End 3 ((RenderPass_ctor \<lparr>vkDevice = 1\<rparr>)\<lparr>mVkRenderPass := 7, mStarted := True\<rparr>) =
     ((RenderPass_ctor \<lparr>vkDevice = 1\<rparr>)\<lparr>mVkRenderPass := 7\<rparr>, [vkCmdEndRenderPass 3])"
  using End_effect [of "RenderPass_ctor \<lparr>vkDevice = 1\<rparr>" 3]
    End_effect [of "(RenderPass_ctor \<lparr>vkDevice = 1\<rparr>)\<lparr>mVkRenderPass := 7, mStarted := True\<rparr>" 3]
  by (simp add: RenderPass_ctor_def)

text \<open>
  C10. A freshly constructed render pass has the three clear flags false, colour and depth
  write true, stencil write false, subpass contents SECONDARY, a null handle and
  \<open>started\<close> false; a \<open>Create\<close> on it gives every attachment it builds load operation
  DONT_CARE and store operation STORE, and stencil operations DONT_CARE and DONT_CARE.
\<close>

theorem RenderPass_ctor_defaults:
  "\<not> mColorClearEnabled (RenderPass_ctor vkContext) \<and>
   \<not> mDepthClearEnabled (RenderPass_ctor vkContext) \<and>
   \<not> mStencilClearEnabled (RenderPass_ctor vkContext) \<and>
   mColorWriteEnabled (RenderPass_ctor vkContext) \<and>
   mDepthWriteEnabled (RenderPass_ctor vkContext) \<and>
   \<not> mStencilWriteEnabled (RenderPass_ctor vkContext) \<and>
   mVkSubpassContents (RenderPass_ctor vkContext) =
     VK_SUBPASS_CONTENTS_SECONDARY_COMMAND_BUFFERS \<and>
   mVkRenderPass (RenderPass_ctor vkContext) = VK_NULL_HANDLE \<and>
   \<not> mStarted (RenderPass_ctor vkContext) \<and>
   map (\<lambda>info. map (\<lambda>a. (loadOp a, storeOp a, stencilLoadOp a, stencilStoreOp a))
                 (pAttachments info))
     (Create_built ndebug answer colorFormat depthstencilFormat (RenderPass_ctor vkContext)) =
     [(if colorFormat \<noteq> VK_FORMAT_UNDEFINED
       then [(VK_ATTACHMENT_LOAD_OP_DONT_CARE, VK_ATTACHMENT_STORE_OP_STORE,
              VK_ATTACHMENT_LOAD_OP_DONT_CARE, VK_ATTACHMENT_STORE_OP_DONT_CARE)]
       else []) @
      (if depthstencilFormat \<noteq> VK_FORMAT_UNDEFINED
       then [(VK_ATTACHMENT_LOAD_OP_DONT_CARE, VK_ATTACHMENT_STORE_OP_STORE,
              VK_ATTACHMENT_LOAD_OP_DONT_CARE, VK_ATTACHMENT_STORE_OP_DONT_CARE)]
       else [])]"
  by (simp add: Create_built_eq pAttachments_Create_info attachmentColor_def
      attachmentDepthStencil_def) (simp add: RenderPass_ctor_def)

theorem RenderPass_ctor_defaults_witness:
  "map (\<lambda>info. map (\<lambda>a. (loadOp a, storeOp a, stencilLoadOp a, stencilStoreOp a))
                 (pAttachments info))
     (Create_built False (VK_SUCCESS, 7) VK_FORMAT_R8G8B8A8_UNORM VK_FORMAT_D24_UNORM_S8_UINT
        (RenderPass_ctor \<lparr>vkDevice = 1\<rparr>)) =
     [[(VK_ATTACHMENT_LOAD_OP_DONT_CARE, VK_ATTACHMENT_STORE_OP_STORE,
        VK_ATTACHMENT_LOAD_OP_DONT_CARE, VK_ATTACHMENT_STORE_OP_DONT_CARE),
       (VK_ATTACHMENT_LOAD_OP_DONT_CARE, VK_ATTACHMENT_STORE_OP_STORE,
        VK_ATTACHMENT_LOAD_OP_DONT_CARE, VK_ATTACHMENT_STORE_OP_DONT_CARE)]]"
  using RenderPass_ctor_defaults [of "\<lparr>vkDevice = 1\<rparr>" False "(VK_SUCCESS, 7)"
      VK_FORMAT_R8G8B8A8_UNORM VK_FORMAT_D24_UNORM_S8_UINT]
  by (simp add: VK_FORMAT_R8G8B8A8_UNORM_def VK_FORMAT_D24_UNORM_S8_UINT_def
      VK_FORMAT_UNDEFINED_def)

subsection \<open>Sequences of calls\<close>

lemma exec_keeps_invariant:
  "started_has_handle s \<Longrightarrow> allowed x s \<Longrightarrow> exec ndebug x s = Inr s' \<Longrightarrow> started_has_handle s'"
  by (cases x)
    (auto simp add: started_has_handle_def Create_def Release_def Begin_def End_def Let_def
      split: if_splits prod.splits sum.splits)

lemma run_keeps_invariant:
  "started_has_handle s \<Longrightarrow> disciplined ndebug ops s \<Longrightarrow> run ndebug ops s = Inr s'
   \<Longrightarrow> started_has_handle s'"
proof (induction ops arbitrary: s)
  case Nil
  then show ?case by simp
next
  case (Cons x xs)
  from Cons.prems(3) obtain s1 where s1: "exec ndebug x s = Inr s1" and r: "run ndebug xs s1 = Inr s'"
    by (auto split: sum.splits)
  from Cons.prems(2) s1 have a: "allowed x s" and d: "disciplined ndebug xs s1"
    by auto
  from exec_keeps_invariant [OF Cons.prems(1) a s1] have "started_has_handle s1" .
  from Cons.IH [OF this d r] show ?case .
qed

lemma disciplined_take:
  "disciplined ndebug ops s \<Longrightarrow> disciplined ndebug (take n ops) s"
proof (induction ops arbitrary: s n)
  case Nil
  then show ?case by simp
next
  case (Cons x xs)
  then show ?case
    by (cases n) (auto split: sum.splits)
qed

lemma ctor_invariant: "started_has_handle (RenderPass_ctor vkContext)"
  by (simp add: started_has_handle_def RenderPass_ctor_def)

text \<open>
  C1, as the code has it. For every sequence of Create, Begin, End and Release on a fresh
  render pass in which Begin is called only while the handle is non-null, and Create and
  Release only while \<open>started\<close> is false, \<open>started\<close> is true only while the handle is
  non-null in every state the sequence reaches. The invariant is the client's to keep:
  \<open>Begin\<close> sets \<open>started\<close> whatever the handle is, and \<open>Release\<close> leaves \<open>started\<close>
  as it finds it.
\<close>

theorem disciplined_client_keeps_started_invariant:
  "(disciplined ndebug ops (RenderPass_ctor vkContext) \<and>
    run ndebug (take n ops) (RenderPass_ctor vkContext) = Inr s' \<longrightarrow>
      started_has_handle s') \<and>
   mStarted (fst (Begin activeCmdBuffer fb rect clearColorValue clearDepthValue
                    clearStencilValue s)) \<and>
   mStarted (fst (Release s)) = mStarted s"
proof -
  have "started_has_handle s'"
    if "disciplined ndebug ops (RenderPass_ctor vkContext)"
      and "run ndebug (take n ops) (RenderPass_ctor vkContext) = Inr s'"
    using run_keeps_invariant [OF ctor_invariant disciplined_take [OF that(1)] that(2)] .
  moreover have "mStarted (fst (Begin activeCmdBuffer fb rect clearColorValue clearDepthValue
                    clearStencilValue s))"
    by (simp add: Begin_def Let_def split: prod.splits)
  moreover have "mStarted (fst (Release s)) = mStarted s"
    by (simp add: Release_def)
  ultimately show ?thesis by blast
qed

theorem disciplined_client_keeps_started_invariant_witness:
  "disciplined False
     [OpCreate (VK_SUCCESS, 7) VK_FORMAT_R8G8B8A8_UNORM VK_FORMAT_UNDEFINED,
      OpBegin 3 4 \<lparr>offset_x = 0, offset_y = 0, extent_width = 16, extent_height = 16\<rparr>
        (0, 0, 0, 0) 0 0,
      OpEnd 3, OpRelease]
     (RenderPass_ctor \<lparr>vkDevice = 1\<rparr>) \<and>
   run False
     (take 2 [OpCreate (VK_SUCCESS, 7) VK_FORMAT_R8G8B8A8_UNORM VK_FORMAT_UNDEFINED,
      OpBegin 3 4 \<lparr>offset_x = 0, offset_y = 0, extent_width = 16, extent_height = 16\<rparr>
        (0, 0, 0, 0) 0 0,
      OpEnd 3, OpRelease])
     (RenderPass_ctor \<lparr>vkDevice = 1\<rparr>) =
     Inr ((RenderPass_ctor \<lparr>vkDevice = 1\<rparr>)\<lparr>mVkRenderPass := 7, mStarted := True\<rparr>) \<and>
   started_has_handle
     ((RenderPass_ctor \<lparr>vkDevice = 1\<rparr>)\<lparr>mVkRenderPass := 7, mStarted := True\<rparr>)"
proof -
  have d: "disciplined False
     [OpCreate (VK_SUCCESS, 7) VK_FORMAT_R8G8B8A8_UNORM VK_FORMAT_UNDEFINED,
      OpBegin 3 4 \<lparr>offset_x = 0, offset_y = 0, extent_width = 16, extent_height = 16\<rparr>
        (0, 0, 0, 0) 0 0,
      OpEnd 3, OpRelease]
     (RenderPass_ctor \<lparr>vkDevice = 1\<rparr>)"
    by (simp add: Create_def Release_def Begin_def End_def Let_def RenderPass_ctor_def
        VK_SUCCESS_def VK_NULL_HANDLE_def)
  have r: "run False
     (take 2 [OpCreate (VK_SUCCESS, 7) VK_FORMAT_R8G8B8A8_UNORM VK_FORMAT_UNDEFINED,
      OpBegin 3 4 \<lparr>offset_x = 0, offset_y = 0, extent_width = 16, extent_height = 16\<rparr>
        (0, 0, 0, 0) 0 0,
      OpEnd 3, OpRelease])
     (RenderPass_ctor \<lparr>vkDevice = 1\<rparr>) =
     Inr ((RenderPass_ctor \<lparr>vkDevice = 1\<rparr>)\<lparr>mVkRenderPass := 7, mStarted := True\<rparr>)"
    by (simp add: Create_def Release_def Begin_def End_def Let_def RenderPass_ctor_def
        VK_SUCCESS_def VK_NULL_HANDLE_def)
  from disciplined_client_keeps_started_invariant
    [where ndebug = False and vkContext = "\<lparr>vkDevice = 1\<rparr>" and n = 2 and
      ops = "[OpCreate (VK_SUCCESS, 7) VK_FORMAT_R8G8B8A8_UNORM VK_FORMAT_UNDEFINED,
        OpBegin 3 4 \<lparr>offset_x = 0, offset_y = 0, extent_width = 16, extent_height = 16\<rparr>
          (0, 0, 0, 0) 0 0,
        OpEnd 3, OpRelease]" and
      s' = "(RenderPass_ctor \<lparr>vkDevice = 1\<rparr>)\<lparr>mVkRenderPass := 7, mStarted := True\<rparr>"]
    d r
  show ?thesis by blast
qed

text \<open>
  Without that discipline the invariant breaks: after Create, Begin, Release the handle
  is null and \<open>started\<close> is still true, and so it is after a Begin on a fresh object.
\<close>

theorem started_without_handle_counterexample:
  "run False
     [OpCreate (VK_SUCCESS, 7) VK_FORMAT_R8G8B8A8_UNORM VK_FORMAT_UNDEFINED,
      OpBegin 3 4 \<lparr>offset_x = 0, offset_y = 0, extent_width = 16, extent_height = 16\<rparr>
        (0, 0, 0, 0) 0 0,
      OpRelease]
     (RenderPass_ctor \<lparr>vkDevice = 1\<rparr>) =
     Inr ((RenderPass_ctor \<lparr>vkDevice = 1\<rparr>)\<lparr>mStarted := True\<rparr>) \<and>
   run False
     [OpBegin 3 4 \<lparr>offset_x = 0, offset_y = 0, extent_width = 16, extent_height = 16\<rparr>
        (0, 0, 0, 0) 0 0]
     (RenderPass_ctor \<lparr>vkDevice = 1\<rparr>) =
     Inr ((RenderPass_ctor \<lparr>vkDevice = 1\<rparr>)\<lparr>mStarted := True\<rparr>) \<and>
   \<not> started_has_handle ((RenderPass_ctor \<lparr>vkDevice = 1\<rparr>)\<lparr>mStarted := True\<rparr>)"
  by (simp add: Create_def Release_def Begin_def End_def Let_def RenderPass_ctor_def
      started_has_handle_def VK_SUCCESS_def VK_NULL_HANDLE_def)

section \<open>Properties of Shader\<close>

subsection \<open>The two loops of SetShaderSource\<close>

lemma of_nat_nat_sint: "0 \<le> sint (w :: 32 word) \<Longrightarrow> of_nat (nat (sint w)) = w"
  by simp

lemma unat_of_nat_u32: "n < 2 ^ 32 \<Longrightarrow> unat (of_nat n :: 32 word) = n"
  by (simp add: unat_of_nat)

lemma length_new_chars: "length (new_chars fresh n) = n"
  by (simp add: new_chars_def)

lemma spec_fragment_prefix:
  assumes "fragment_readable source length' i"
  shows "length (spec_fragment source length' i) \<le> length (source ! i)"
    and "take (length (spec_fragment source length' i)) (source ! i) =
         spec_fragment source length' i"
  using assms
  by (auto simp add: fragment_readable_def spec_fragment_def length_takeWhile_le
      takeWhile_eq_take [symmetric] split: option.splits)

lemma length_take_sint:
  assumes "\<not> sint (w :: 32 word) < 0" and "nat (sint w) \<le> length (p :: string)"
  shows "(of_nat (length (take (nat (sint w)) p)) :: 32 word) = w"
proof -
  have "length (take (nat (sint w)) p) = nat (sint w)"
    using assms(2) by simp
  then show ?thesis
    using assms(1) by (simp add: of_nat_nat_sint)
qed

lemma fragment_length_readable:
  assumes "fragment_readable source length' i"
  shows "fragment_length source length' i =
         Inr (of_nat (length (spec_fragment source length' i)))"
proof (cases length')
  case None
  then show ?thesis
    using assms
    by (simp add: fragment_readable_def fragment_length_def spec_fragment_def strlen_def)
next
  case (Some ls)
  show ?thesis
  proof (cases "sint (ls ! i) < 0")
    case True
    then show ?thesis
      using assms Some
      by (simp add: fragment_readable_def fragment_length_def spec_fragment_def strlen_def)
  next
    case False
    then have "nat (sint (ls ! i)) \<le> length (source ! i)"
      using assms Some by (simp add: fragment_readable_def)
    from length_take_sint [OF False this] show ?thesis
      using assms Some False
      by (simp add: fragment_readable_def fragment_length_def spec_fragment_def)
  qed
qed

lemma count_loop_readable:
  assumes "\<forall>j. i \<le> j \<and> j < count \<longrightarrow> fragment_readable source length' j"
    and "i \<le> count"
  shows "count_loop source length' count i sl acc =
     Inr (\<lambda>j. if i \<le> j \<and> j < count
               then Some (of_nat (length (spec_fragment source length' j))) else sl j,
          acc + of_nat (length (concat (map (spec_fragment source length') [i..<count]))))"
  using assms
proof (induction "count - i" arbitrary: i sl acc)
  case 0
  then have "i = count" by simp
  then show ?case by (auto simp add: count_loop.simps [of _ _ _ count] fun_eq_iff)
next
  case (Suc k)
  then have lt: "i < count" by simp
  have r: "fragment_readable source length' i" using Suc.prems lt by simp
  have ih: "count_loop source length' count (Suc i)
              (sl(i \<mapsto> of_nat (length (spec_fragment source length' i))))
              (acc + of_nat (length (spec_fragment source length' i))) =
     Inr (\<lambda>j. if Suc i \<le> j \<and> j < count
               then Some (of_nat (length (spec_fragment source length' j)))
               else (sl(i \<mapsto> of_nat (length (spec_fragment source length' i)))) j,
          (acc + of_nat (length (spec_fragment source length' i))) +
          of_nat (length (concat (map (spec_fragment source length') [Suc i..<count]))))"
    using Suc.hyps(2) Suc.prems lt by (intro Suc.hyps(1)) auto
  have f: "(\<lambda>j. if Suc i \<le> j \<and> j < count
               then Some (of_nat (length (spec_fragment source length' j)))
               else (sl(i \<mapsto> of_nat (length (spec_fragment source length' i)))) j) =
        (\<lambda>j. if i \<le> j \<and> j < count
               then Some (of_nat (length (spec_fragment source length' j)) :: u32) else sl j)"
    using lt by (auto simp add: fun_eq_iff)
  show ?case
    using lt
    by (subst count_loop.simps)
      (simp add: fragment_length_readable [OF r] ih f upt_conv_Cons add.assoc)
qed

lemma concat_loop_copies:
  assumes "\<forall>j. i \<le> j \<and> j < count \<longrightarrow>
             fragment_readable source length' j \<and>
             sl j = Some (of_nat (length (spec_fragment source length' j)))"
    and "i \<le> count"
    and "unat cur = length pre"
    and "length (concat (map (spec_fragment source length') [i..<count])) \<le> length rest"
    and "length pre + length rest < 2 ^ 32"
  shows "concat_loop source sl count i (pre @ rest) cur =
     Inr (pre @ concat (map (spec_fragment source length') [i..<count]) @
            drop (length (concat (map (spec_fragment source length') [i..<count]))) rest,
          cur + of_nat (length (concat (map (spec_fragment source length') [i..<count]))))"
  using assms
proof (induction "count - i" arbitrary: i pre rest cur)
  case 0
  then have "i = count" by simp
  then show ?case by (simp add: concat_loop.simps [of _ _ _ count])
next
  case (Suc k)
  let ?t = "spec_fragment source length' i"
  let ?T = "concat (map (spec_fragment source length') [Suc i..<count])"
  from Suc.hyps(2) have lt: "i < count" by simp
  then have up: "[i..<count] = i # [Suc i..<count]" by (simp add: upt_conv_Cons)
  have r: "fragment_readable source length' i"
    and sli: "sl i = Some (of_nat (length ?t))"
    using Suc.prems(1) lt by simp_all
  have "i < length source" using r by (simp add: fragment_readable_def)
  then have isrc: "\<not> length source \<le> i" by simp
  have tot: "length ?t + length ?T \<le> length rest"
    using Suc.prems(4) by (simp add: up)
  have small: "length ?t < 2 ^ 32"
    using tot Suc.prems(5) by simp
  have un: "unat (of_nat (length ?t) :: 32 word) = length ?t"
    using small by (rule unat_of_nat_u32)
  have next_all: "\<forall>j. Suc i \<le> j \<and> j < count \<longrightarrow>
             fragment_readable source length' j \<and>
             sl j = Some (of_nat (length (spec_fragment source length' j)))"
    using Suc.prems(1) by simp
  have k: "k = count - Suc i" using Suc.hyps(2) by simp
  have le: "Suc i \<le> count" using lt by simp
  show ?case
  proof (cases "length ?t = 0")
    case True
    then have e: "?t = []" by simp
    have ih: "concat_loop source sl count (Suc i) (pre @ rest) cur =
        Inr (pre @ ?T @ drop (length ?T) rest, cur + of_nat (length ?T))"
      using tot Suc.prems(3) Suc.prems(5)
      by (intro Suc.hyps(1) [OF k next_all le]) simp_all
    show ?thesis
      using lt by (subst concat_loop.simps) (simp add: sli e ih up)
  next
    case False
    then have nz: "(of_nat (length ?t) :: 32 word) \<noteq> 0"
      using un by (metis unat_0)
    have cp: "memcpy (pre @ rest) (unat cur) (source ! i) (length ?t) =
        Inr ((pre @ ?t) @ drop (length ?t) rest)"
      using spec_fragment_prefix [OF r] tot Suc.prems(3)
      by (simp add: memcpy_def)
    have cur': "unat (cur + of_nat (length ?t)) = length (pre @ ?t)"
    proof -
      have "unat cur + unat (of_nat (length ?t) :: 32 word) < 2 ^ 32"
        using un Suc.prems(3) Suc.prems(5) tot by simp
      then have "unat (cur + of_nat (length ?t)) = unat cur + unat (of_nat (length ?t) :: 32 word)"
        by (simp add: unat_add_lem [THEN iffD1])
      then show ?thesis using un Suc.prems(3) by simp
    qed
    have ih: "concat_loop source sl count (Suc i) ((pre @ ?t) @ drop (length ?t) rest)
          (cur + of_nat (length ?t)) =
        Inr ((pre @ ?t) @ ?T @ drop (length ?T) (drop (length ?t) rest),
             (cur + of_nat (length ?t)) + of_nat (length ?T))"
      using tot Suc.prems(5)
      by (intro Suc.hyps(1) [OF k next_all le cur']) simp_all
    show ?thesis
      using lt
      by (subst concat_loop.simps)
        (simp add: sli nz isrc un cp ih [simplified] up add.assoc
          add.commute [of "length ?T"])
  qed
qed

subsection \<open>Setting and reading the source\<close>

lemma SetShaderSource_concatenates:
  assumes pos: "0 < sint count"
    and rd: "list_all (fragment_readable source length') [0..<nat (sint count)]"
    and ne: "spec_source (nat (sint count)) source length' \<noteq> []"
    and sz: "length (spec_source (nat (sint count)) source length') + 1 < 2 ^ 31"
  shows "SetShaderSource ndebug fresh count (Some source) length' s =
     Inr ((FreeSources s)
            \<lparr>mCompiled := False,
             mSourceLength := of_nat (length (spec_source (nat (sint count)) source length')),
             mSource := Some (spec_source (nat (sint count)) source length' @ [NUL])\<rparr>)"
proof -
  let ?n = "nat (sint count)"
  let ?T = "spec_source ?n source length'"
  let ?sl = "\<lambda>j. if 0 \<le> j \<and> j < ?n
               then Some (of_nat (length (spec_fragment source length' j)) :: u32)
               else Map.empty j"
  have c0: "count \<noteq> 0" using pos by auto
  have all: "\<forall>j. 0 \<le> j \<and> j < ?n \<longrightarrow> fragment_readable source length' j"
    using rd by (simp add: list_all_iff)
  have cl: "count_loop source length' ?n 0 Map.empty 0 = Inr (?sl, 0 + of_nat (length ?T))"
    unfolding spec_source_def by (rule count_loop_readable [OF all]) simp
  have big: "length ?T < 2 ^ 32" using sz by simp
  have un: "unat (of_nat (length ?T) :: u32) = length ?T"
    using big by (rule unat_of_nat_u32)
  have tnz: "(of_nat (length ?T) :: u32) \<noteq> 0"
    using un ne by (metis length_0_conv unat_0)
  have un1: "unat (of_nat (length ?T) + 1 :: u32) = length ?T + 1"
  proof -
    have "unat (of_nat (length ?T + 1) :: u32) = length ?T + 1"
      using sz by (intro unat_of_nat_u32) simp
    then show ?thesis by (simp add: add.commute)
  qed
  obtain buf where buf: "new_chars fresh (length ?T + 1) = buf" by simp
  have lb: "length buf = length ?T + 1" using buf length_new_chars by blast
  have all2: "\<forall>j. 0 \<le> j \<and> j < ?n \<longrightarrow>
             fragment_readable source length' j \<and>
             ?sl j = Some (of_nat (length (spec_fragment source length' j)))"
    using all by simp
  have kl: "concat_loop source ?sl ?n 0 ([] @ buf) 0 =
      Inr ([] @ concat (map (spec_fragment source length') [0..<?n]) @
             drop (length (concat (map (spec_fragment source length') [0..<?n]))) buf,
           0 + of_nat (length (concat (map (spec_fragment source length') [0..<?n]))))"
    using lb sz by (intro concat_loop_copies [OF all2]) (simp_all add: spec_source_def)
  then have kl': "concat_loop source ?sl ?n 0 buf 0 =
      Inr (?T @ drop (length ?T) buf, of_nat (length ?T))"
    by (simp add: spec_source_def)
  have ld: "length (drop (length ?T) buf) = 1" using lb by simp
  then obtain x where x: "drop (length ?T) buf = [x]"
    by (cases "drop (length ?T) buf") auto
  have upd: "(?T @ drop (length ?T) buf)[length ?T := NUL] = ?T @ [NUL]"
    by (simp add: x list_update_append)
  show ?thesis
    using c0 pos tnz
    by (simp add: SetShaderSource_def Let_def cl [simplified] un1 [simplified]
        buf [simplified] kl' [simplified] un upd lb)
qed

lemma SetShaderSource_sourceless:
  assumes pos: "0 < sint count"
    and rd: "list_all (fragment_readable source length') [0..<nat (sint count)]"
    and em: "spec_source (nat (sint count)) source length' = []"
  shows "SetShaderSource ndebug fresh count (Some source) length' s =
     Inr ((FreeSources s)\<lparr>mCompiled := False, mSourceLength := 0\<rparr>)"
proof -
  let ?n = "nat (sint count)"
  let ?sl = "\<lambda>j. if 0 \<le> j \<and> j < ?n
               then Some (of_nat (length (spec_fragment source length' j)) :: u32)
               else Map.empty j"
  have c0: "count \<noteq> 0" using pos by auto
  have all: "\<forall>j. 0 \<le> j \<and> j < ?n \<longrightarrow> fragment_readable source length' j"
    using rd by (simp add: list_all_iff)
  have "count_loop source length' ?n 0 Map.empty 0 =
      Inr (?sl, 0 + of_nat (length (spec_source ?n source length')))"
    unfolding spec_source_def by (rule count_loop_readable [OF all]) simp
  then have cl: "count_loop source length' ?n 0 Map.empty 0 = Inr (?sl, 0)"
    by (simp add: em)
  show ?thesis
    using c0 pos by (simp add: SetShaderSource_def Let_def cl [simplified])
qed

lemma GetShaderSourceLength_stored:
  assumes "t \<noteq> []" and "length t + 1 < 2 ^ 31"
  shows "GetShaderSourceLength (s\<lparr>mSourceLength := of_nat (length t), mSource := m\<rparr>) =
         int (length t) + 1"
proof -
  have un: "unat (of_nat (length t) :: u32) = length t"
    using assms(2) by (intro unat_of_nat_u32) simp
  then have nz: "(of_nat (length t) :: u32) \<noteq> 0"
    using assms(1) by (metis length_0_conv unat_0)
  have "int (length t + 1) < 2 ^ 31"
    using assms(2) by (metis of_nat_less_numeral_power_cancel_iff)
  then have "signed_take_bit 31 (int (length t + 1)) = int (length t + 1)"
    by (intro signed_take_bit_int_eq_self) simp_all
  then have "sint (of_nat (length t + 1) :: u32) = int (length t + 1)"
    unfolding signed_of_nat by simp
  then show ?thesis
    using nz by (simp add: GetShaderSourceLength_def word_greater_zero_iff add.commute)
qed

lemma GetShaderSource_stored:
  assumes "t \<noteq> []" and "length t + 1 < 2 ^ 31"
  shows "GetShaderSource fresh (s\<lparr>mSourceLength := of_nat (length t), mSource := Some (t @ [NUL])\<rparr>) =
         Inr (Some (t @ [NUL]))"
proof -
  have n: "GetShaderSourceLength (s\<lparr>mSourceLength := of_nat (length t), mSource := Some (t @ [NUL])\<rparr>) =
      int (length t) + 1"
    using assms by (rule GetShaderSourceLength_stored)
  have "memcpy (new_chars fresh (length t + 1)) 0 (t @ [NUL]) (length t + 1) = Inr (t @ [NUL])"
    by (simp add: memcpy_def length_new_chars)
  then show ?thesis
    by (simp add: GetShaderSource_def n Let_def nat_add_distrib)
qed

lemma Get_sourceless:
  "GetShaderSource fresh ((FreeSources s)\<lparr>mCompiled := False, mSourceLength := 0\<rparr>) = Inr None"
  "GetShaderSourceLength ((FreeSources s)\<lparr>mCompiled := False, mSourceLength := 0\<rparr>) = 0"
  by (simp_all add: GetShaderSource_def GetShaderSourceLength_def FreeSources_def)


text \<open>
  C2, as the code has it. For every fragment count of at least 1, readable fragments and
  every length specification (no lengths, negative entries for terminated text, or
  non-negative lengths), whose concatenated text with its terminator fits a signed 32-bit
  count: if the concatenated text is not empty, \<open>GetShaderSource\<close> after
  \<open>SetShaderSource\<close> returns the fragments' texts concatenated in input order and
  followed by one terminator, and \<open>GetShaderSourceLength\<close> returns the length of the
  concatenation plus 1; if it is empty, the shader stays without source, \<open>GetShaderSource\<close>
  returns null and \<open>GetShaderSourceLength\<close> returns 0.
\<close>

theorem SetShaderSource_then_GetShaderSource:
  assumes "0 < sint count"
    and "list_all (fragment_readable source length') [0..<nat (sint count)]"
    and "length (spec_source (nat (sint count)) source length') + 1 < 2 ^ 31"
  shows "\<exists>s'. SetShaderSource ndebug fresh count (Some source) length' s = Inr s' \<and>
           (if spec_source (nat (sint count)) source length' = []
            then GetShaderSource fresh' s' = Inr None \<and> GetShaderSourceLength s' = 0
            else GetShaderSource fresh' s' =
                   Inr (Some (spec_source (nat (sint count)) source length' @ [NUL])) \<and>
                 GetShaderSourceLength s' =
                   int (length (spec_source (nat (sint count)) source length')) + 1)"
proof (cases "spec_source (nat (sint count)) source length' = []")
  case True
  show ?thesis
    using SetShaderSource_sourceless [OF assms(1,2) True, of ndebug fresh s] True
    by (simp add: Get_sourceless)
next
  case False
  show ?thesis
    using SetShaderSource_concatenates [OF assms(1,2) False assms(3), of ndebug fresh s]
      GetShaderSource_stored [OF False assms(3)] GetShaderSourceLength_stored [OF False assms(3)]
      False
    by simp
qed

theorem SetShaderSource_then_GetShaderSource_witness:
  "0 < sint (3 :: 32 word) \<and>
   list_all (fragment_readable [''abc'', ''de'' @ [NUL], ''fgh''] (Some [2, - 1, 3]))
     [0..<nat (sint (3 :: 32 word))] \<and>
   spec_source 3 [''abc'', ''de'' @ [NUL], ''fgh''] (Some [2, - 1, 3]) = ''abdefgh'' \<and>
   (\<exists>s'. SetShaderSource False (\<lambda>i. CHR ''?'') 3 (Some [''abc'', ''de'' @ [NUL], ''fgh''])
           (Some [2, - 1, 3]) (Shader_ctor \<lparr>vkDevice = 1\<rparr>) = Inr s' \<and>
         GetShaderSource (\<lambda>i. CHR ''!'') s' = Inr (Some (''abdefgh'' @ [NUL])) \<and>
         GetShaderSourceLength s' = 8)"
proof -
  have n: "nat (sint (3 :: 32 word)) = 3" by simp
  have c: "0 < sint (3 :: 32 word)" by simp
  have r: "list_all (fragment_readable [''abc'', ''de'' @ [NUL], ''fgh''] (Some [2, - 1, 3]))
     [0..<nat (sint (3 :: 32 word))]"
    by (simp add: n upt_rec fragment_readable_def NUL_def)
  have t: "spec_source 3 [''abc'', ''de'' @ [NUL], ''fgh''] (Some [2, - 1, 3]) = ''abdefgh''"
    by (simp add: spec_source_def upt_rec spec_fragment_def NUL_def)
  have z: "length (spec_source (nat (sint (3 :: 32 word))) [''abc'', ''de'' @ [NUL], ''fgh'']
      (Some [2, - 1, 3])) + 1 < 2 ^ 31"
    by (simp only: n t) simp
  from SetShaderSource_then_GetShaderSource [OF c r z, of False "\<lambda>i. CHR ''?''"
      "Shader_ctor \<lparr>vkDevice = 1\<rparr>" "\<lambda>i. CHR ''!''"]
  have "\<exists>s'. SetShaderSource False (\<lambda>i. CHR ''?'') 3 (Some [''abc'', ''de'' @ [NUL], ''fgh''])
           (Some [2, - 1, 3]) (Shader_ctor \<lparr>vkDevice = 1\<rparr>) = Inr s' \<and>
         GetShaderSource (\<lambda>i. CHR ''!'') s' = Inr (Some (''abdefgh'' @ [NUL])) \<and>
         GetShaderSourceLength s' = 8"
    unfolding n t by simp
  with c r t show ?thesis by blast
qed

text \<open>
  One empty fragment: the concatenation is empty, and the code answers null and 0 where a
  lone terminator and 1 were claimed.
\<close>

theorem SetShaderSource_empty_text_counterexample:
  "spec_source 1 [[NUL]] None = [] \<and>
   SetShaderSource False (\<lambda>i. CHR ''?'') 1 (Some [[NUL]]) None (Shader_ctor \<lparr>vkDevice = 1\<rparr>) =
     Inr (Shader_ctor \<lparr>vkDevice = 1\<rparr>) \<and>
   GetShaderSource (\<lambda>i. CHR ''?'') (Shader_ctor \<lparr>vkDevice = 1\<rparr>) = Inr None \<and>
   GetShaderSourceLength (Shader_ctor \<lparr>vkDevice = 1\<rparr>) = 0"
proof -
  have l: "fragment_length [[NUL]] None 0 = Inr 0"
    by (simp add: fragment_length_def strlen_def)
  have c: "count_loop [[NUL]] None (Suc 0) 0 Map.empty 0 = Inr (Map.empty(0 \<mapsto> 0), 0)"
    by (simp add: count_loop.simps [of _ _ _ 0] count_loop.simps [of _ _ _ "Suc 0"] l)
  show ?thesis
    by (simp add: spec_source_def spec_fragment_def SetShaderSource_def Let_def c
        FreeSources_def Shader_ctor_def GetShaderSource_def GetShaderSourceLength_def)
qed

text \<open>
  The bound on the size is needed: the lengths are summed in 32 bits, so three fragments
  of 2147483647 bytes get a buffer of 2147483646 bytes, and the first copy leaves it.
\<close>

lemma SetShaderSource_counter_wraps:
  assumes "length p = 2147483647"
  shows "SetShaderSource ndebug fresh 3 (Some [p, p, p])
           (Some [2147483647, 2147483647, 2147483647]) s = Inl OutOfBounds"
proof -
  have l: "fragment_length [p, p, p] (Some [2147483647, 2147483647, 2147483647]) i =
      Inr 2147483647" if "i < 3" for i
    using that by (auto simp add: fragment_length_def less_Suc_eq numeral_3_eq_3)
  have c: "count_loop [p, p, p] (Some [2147483647, 2147483647, 2147483647]) 3 0 Map.empty 0 =
      Inr (Map.empty(0 \<mapsto> 2147483647, Suc 0 \<mapsto> 2147483647, Suc (Suc 0) \<mapsto> 2147483647),
           2147483645)"
    by (simp add: count_loop.simps [of _ _ _ 0] count_loop.simps [of _ _ _ "Suc 0"]
        count_loop.simps [of _ _ _ "Suc (Suc 0)"] count_loop.simps [of _ _ _ "Suc (Suc (Suc 0))"]
        l numeral_3_eq_3)
  have k: "concat_loop [p, p, p]
        (Map.empty(0 \<mapsto> 2147483647, Suc 0 \<mapsto> 2147483647, Suc (Suc 0) \<mapsto> 2147483647))
        3 0 (new_chars fresh 2147483646) 0 = Inl OutOfBounds"
    by (simp add: concat_loop.simps [of _ _ _ 0] memcpy_def length_new_chars assms)
  show ?thesis
    by (simp add: SetShaderSource_def Let_def c k)
qed

text \<open>
  C7, as the code has it. After \<open>SetShaderSource(2, ["void main() {", "}"], null)\<close> the
  stored source is \<open>void main() {}\<close> with its terminator, the stored length is 14 and
  \<open>GetShaderSourceLength\<close> returns 15.
\<close>

theorem SetShaderSource_void_main:
  "SetShaderSource ndebug fresh 2 (Some [''void main() {'' @ NUL # r1, ''}'' @ NUL # r2]) None s =
     Inr ((FreeSources s)
            \<lparr>mCompiled := False, mSourceLength := 14,
             mSource := Some (''void main() {}'' @ [NUL])\<rparr>) \<and>
   GetShaderSourceLength ((FreeSources s)
            \<lparr>mCompiled := False, mSourceLength := 14,
             mSource := Some (''void main() {}'' @ [NUL])\<rparr>) = 15"
proof -
  let ?src = "[''void main() {'' @ NUL # r1, ''}'' @ NUL # r2]"
  have n: "nat (sint (2 :: 32 word)) = 2" by simp
  have c: "0 < sint (2 :: 32 word)" by simp
  have r: "list_all (fragment_readable ?src None) [0..<nat (sint (2 :: 32 word))]"
    by (simp add: n upt_rec fragment_readable_def)
  have t: "spec_source 2 ?src None = ''void main() {}''"
    by (simp add: spec_source_def upt_rec spec_fragment_def NUL_def)
  have e: "spec_source (nat (sint (2 :: 32 word))) ?src None \<noteq> []"
    by (simp only: n t) simp
  have z: "length (spec_source (nat (sint (2 :: 32 word))) ?src None) + 1 < 2 ^ 31"
    by (simp only: n t) simp
  have l: "GetShaderSourceLength ((FreeSources s)
            \<lparr>mCompiled := False, mSourceLength := 14,
             mSource := Some (''void main() {}'' @ [NUL])\<rparr>) = 15"
    by (simp add: GetShaderSourceLength_def)
  from SetShaderSource_concatenates [OF c r e z, of ndebug fresh s] l
  show ?thesis
    unfolding n t by simp
qed

text \<open>
  The text \<open>void main() {}\<close> has 14 characters: the stored length is not 15 and the
  length reported is not 16.
\<close>

theorem SetShaderSource_void_main_counterexample:
  "SetShaderSource False (\<lambda>i. CHR ''?'') 2 (Some [''void main() {'' @ [NUL], ''}'' @ [NUL]]) None
     (Shader_ctor \<lparr>vkDevice = 1\<rparr>) =
     Inr ((Shader_ctor \<lparr>vkDevice = 1\<rparr>)
            \<lparr>mSourceLength := 14, mSource := Some (''void main() {}'' @ [NUL])\<rparr>) \<and>
   mSourceLength ((Shader_ctor \<lparr>vkDevice = 1\<rparr>)
            \<lparr>mSourceLength := 14, mSource := Some (''void main() {}'' @ [NUL])\<rparr>) \<noteq> 15 \<and>
   GetShaderSourceLength ((Shader_ctor \<lparr>vkDevice = 1\<rparr>)
            \<lparr>mSourceLength := 14, mSource := Some (''void main() {}'' @ [NUL])\<rparr>) \<noteq> 16"
proof -
  let ?src = "[''void main() {'' @ [NUL], ''}'' @ [NUL]]"
  have n: "nat (sint (2 :: 32 word)) = 2" by simp
  have c: "0 < sint (2 :: 32 word)" by simp
  have r: "list_all (fragment_readable ?src None) [0..<nat (sint (2 :: 32 word))]"
    by (simp add: n upt_rec fragment_readable_def)
  have t: "spec_source 2 ?src None = ''void main() {}''"
    by (simp add: spec_source_def upt_rec spec_fragment_def NUL_def)
  have e: "spec_source (nat (sint (2 :: 32 word))) ?src None \<noteq> []"
    by (simp only: n t) simp
  have z: "length (spec_source (nat (sint (2 :: 32 word))) ?src None) + 1 < 2 ^ 31"
    by (simp only: n t) simp
  from SetShaderSource_concatenates [OF c r e z, of False "\<lambda>i. CHR ''?''"
      "Shader_ctor \<lparr>vkDevice = 1\<rparr>"]
  show ?thesis
    unfolding n t by (simp add: FreeSources_def Shader_ctor_def GetShaderSourceLength_def)
qed




text \<open>
  C8, as the code has it. Where assertions are compiled in, \<open>CreateVkShaderModule\<close> on a
  shader of stage INVALID stops at the assertion before any native call. For every shader
  of stage VERTEX or FRAGMENT without binary words, in either build, it returns null
  without a native creation call, after destroying the module the shader had.
\<close>

theorem CreateVkShaderModule_guards:
  "(mShaderType s = SHADER_TYPE_INVALID \<longrightarrow>
      CreateVkShaderModule False answer s = (Inl AssertionFailed, s, [])) \<and>
   ((mShaderType s = SHADER_TYPE_VERTEX \<or> mShaderType s = SHADER_TYPE_FRAGMENT) \<and> mSpv s = []
    \<longrightarrow> CreateVkShaderModule ndebug answer s =
          (Inr VK_NULL_HANDLE, s\<lparr>mVkShaderModule := VK_NULL_HANDLE\<rparr>,
           if mVkShaderModule s \<noteq> VK_NULL_HANDLE
           then [vkDestroyShaderModule (vkDevice (mVkContext_sh s)) (mVkShaderModule s)]
           else []) \<and>
        \<not> list_ex is_module_creation (snd (snd (CreateVkShaderModule ndebug answer s))))"
  by (auto simp add: CreateVkShaderModule_def DestroyVkShader_def Let_def)

theorem CreateVkShaderModule_guards_witness:
  "CreateVkShaderModule False (VK_SUCCESS, 9)
     ((Shader_ctor \<lparr>vkDevice = 1\<rparr>)\<lparr>mSpv := [119734787]\<rparr>) =
     (Inl AssertionFailed, (Shader_ctor \<lparr>vkDevice = 1\<rparr>)\<lparr>mSpv := [119734787]\<rparr>, []) \<and>
   CreateVkShaderModule True (VK_SUCCESS, 9)
     ((Shader_ctor \<lparr>vkDevice = 1\<rparr>)
        \<lparr>mShaderType := SHADER_TYPE_FRAGMENT, mVkShaderModule := 5\<rparr>) =
     (Inr VK_NULL_HANDLE,
      (Shader_ctor \<lparr>vkDevice = 1\<rparr>)\<lparr>mShaderType := SHADER_TYPE_FRAGMENT\<rparr>,
      [vkDestroyShaderModule 1 5])"
  using CreateVkShaderModule_guards [of "(Shader_ctor \<lparr>vkDevice = 1\<rparr>)\<lparr>mSpv := [119734787]\<rparr>"
      "(VK_SUCCESS, 9)" True]
    CreateVkShaderModule_guards [of "(Shader_ctor \<lparr>vkDevice = 1\<rparr>)
        \<lparr>mShaderType := SHADER_TYPE_FRAGMENT, mVkShaderModule := 5\<rparr>" "(VK_SUCCESS, 9)" True]
  by (simp add: Shader_ctor_def VK_NULL_HANDLE_def)

text \<open>
  Where assertions are compiled away, a shader of stage INVALID with binary words reaches
  the native creation call and gets its module.
\<close>

theorem CreateVkShaderModule_invalid_stage_counterexample:
  "mShaderType ((Shader_ctor \<lparr>vkDevice = 1\<rparr>)\<lparr>mSpv := [119734787]\<rparr>) = SHADER_TYPE_INVALID \<and>
   CreateVkShaderModule True (VK_SUCCESS, 9)
     ((Shader_ctor \<lparr>vkDevice = 1\<rparr>)\<lparr>mSpv := [119734787]\<rparr>) =
     (Inr 9,
      (Shader_ctor \<lparr>vkDevice = 1\<rparr>)\<lparr>mSpv := [119734787], mVkShaderModule := 9\<rparr>,
      [vkCreateShaderModule 1
         \<lparr>sm_sType = VK_STRUCTURE_TYPE_SHADER_MODULE_CREATE_INFO, sm_flags = 0,
          codeSize = 4, pCode = [119734787]\<rparr>])"
  by (simp add: CreateVkShaderModule_def DestroyVkShader_def Let_def Shader_ctor_def
      VK_SUCCESS_def VK_NULL_HANDLE_def)

end
